theory Spec2Isabelle
  imports Main
begin

section \<open>Strings and thrown values\<close>

text \<open>
  The two components are React client components written in TypeScript. Their strings
  are modelled as \<open>string\<close>. The message literals of the source are Japanese; each is
  written here as the bytes of its UTF-8 encoding, ASCII runs as ordinary literals.
  No property below looks inside these literals: they are only compared and appended.
\<close>

definition utf8 :: "nat list \<Rightarrow> string" where
  "utf8 bs = map char_of bs"

text \<open>\<open>html_not_found\<close>: the text before the path in the Error thrown on a non-ok markup response.\<close>

definition html_not_found :: string where
  "html_not_found = ''HTML'' @ utf8 [227, 131, 149, 227, 130, 161, 227, 130, 164, 227,
     131, 171, 227, 129, 140, 232, 166, 139, 227, 129, 164, 227, 129, 139, 227, 130,
     138, 227, 129, 190, 227, 129, 155, 227, 130, 147] @ '': ''"

text \<open>\<open>css_not_found\<close>: the text before the path in the console.warn of a non-ok stylesheet response.\<close>

definition css_not_found :: string where
  "css_not_found = ''CSS'' @ utf8 [227, 131, 149, 227, 130, 161, 227, 130, 164, 227,
     131, 171, 227, 129, 140, 232, 166, 139, 227, 129, 164, 227, 129, 139, 227, 130,
     138, 227, 129, 190, 227, 129, 155, 227, 130, 147] @ '': ''"

text \<open>\<open>css_not_applied\<close>: the text after the path in that console.warn.\<close>

definition css_not_applied :: string where
  "css_not_applied = utf8 [227, 128, 130] @ ''CSS'' @ utf8 [227, 129, 175, 233, 129,
     169, 231, 148, 168, 227, 129, 149, 227, 130, 140, 227, 129, 190, 227, 129, 155,
     227, 130, 147, 227, 128, 130]"

text \<open>\<open>content_error_label\<close>: the label of the console.error in the catch block of fetchUserPageContent.\<close>

definition content_error_label :: string where
  "content_error_label = utf8 [227, 130, 179, 227, 131, 179, 227, 131, 134, 227, 131,
     179, 227, 131, 132, 227, 129, 174, 232, 170, 173, 227, 129, 191, 232, 190, 188,
     227, 129, 191, 228, 184, 173, 227, 129, 171, 227, 130, 168, 227, 131, 169, 227,
     131, 188, 227, 129, 140, 231, 153, 186, 231, 148, 159, 227, 129, 151, 227, 129,
     190, 227, 129, 151, 227, 129, 159] @ '':''"

text \<open>\<open>load_failed\<close>: the text before the error message in setError of fetchUserPageContent.\<close>

definition load_failed :: string where
  "load_failed = utf8 [227, 131, 154, 227, 131, 188, 227, 130, 184, 227, 130, 179, 227,
     131, 179, 227, 131, 134, 227, 131, 179, 227, 131, 132, 227, 129, 174, 232, 170,
     173, 227, 129, 191, 232, 190, 188, 227, 129, 191, 227, 129, 171, 229, 164, 177,
     230, 149, 151, 227, 129, 151, 227, 129, 190, 227, 129, 151, 227, 129, 159] @ '': ''"

text \<open>\<open>unknown_error\<close>: the fallback of err.message in fetchUserPageContent.\<close>

definition unknown_error :: string where
  "unknown_error = utf8 [228, 184, 141, 230, 152, 142, 227, 129, 170, 227, 130, 168,
     227, 131, 169, 227, 131, 188]"

text \<open>\<open>list_load_failed\<close>: the message of the Error thrown on a non-ok list response.\<close>

definition list_load_failed :: string where
  "list_load_failed = utf8 [227, 131, 166, 227, 131, 188, 227, 130, 182, 227, 131, 188,
     227, 131, 170, 227, 130, 185, 227, 131, 136, 227, 129, 174, 232, 170, 173, 227,
     129, 191, 232, 190, 188, 227, 129, 191, 227, 129, 171, 229, 164, 177, 230, 149,
     151, 227, 129, 151, 227, 129, 190, 227, 129, 151, 227, 129, 159, 227, 128, 130,
     227, 131, 149, 227, 130, 161, 227, 130, 164, 227, 131, 171, 227, 129, 140, 229,
     173, 152, 229, 156, 168, 227, 129, 153, 227, 130, 139, 227, 129, 139, 231, 162,
     186, 232, 170, 141, 227, 129, 151, 227, 129, 166, 227, 129, 143, 227, 129, 160,
     227, 129, 149, 227, 129, 132, 227, 128, 130]"

text \<open>\<open>list_error_label\<close>: the label of the console.error in the catch block of fetchUsers.\<close>

definition list_error_label :: string where
  "list_error_label = utf8 [227, 131, 166, 227, 131, 188, 227, 130, 182, 227, 131, 188,
     227, 131, 170, 227, 130, 185, 227, 131, 136, 227, 129, 174, 227, 131, 149, 227,
     130, 167, 227, 131, 131, 227, 131, 129, 227, 130, 168, 227, 131, 169, 227, 131,
     188] @ '':''"

text \<open>\<open>list_unknown_error\<close>: the fallback of err.message in fetchUsers.\<close>

definition list_unknown_error :: string where
  "list_unknown_error = utf8 [227, 131, 166, 227, 131, 188, 227, 130, 182, 227, 131,
     188, 227, 131, 170, 227, 130, 185, 227, 131, 136, 227, 129, 174, 232, 170, 173,
     227, 129, 191, 232, 190, 188, 227, 129, 191, 228, 184, 173, 227, 129, 171, 228,
     184, 141, 230, 152, 142, 227, 129, 170, 227, 130, 168, 227, 131, 169, 227, 131,
     188, 227, 129, 140, 231, 153, 186, 231, 148, 159, 227, 129, 151, 227, 129, 190,
     227, 129, 151, 227, 129, 159, 227, 128, 130]"

text \<open>
  A thrown value: the source only reads its \<open>message\<close>. A rejected \<open>fetch\<close>, a rejected
  body read and the \<open>new Error(...)\<close> of the source are all of this shape.
\<close>

datatype js_error = Error (message: string)

text \<open>The JavaScript \<open>a || b\<close> on strings: the empty string is falsy.\<close>

definition or_else :: "string \<Rightarrow> string \<Rightarrow> string" where
  "or_else a b = (if a = [] then b else a)"

text \<open>
  A value that \<open>response.json()\<close> can deliver: any JSON value. The type annotation
  \<open>UserSlug[]\<close> of the source is erased at run time and the source does not inspect
  the value. A number is kept as the text that JavaScript prints for it, so it is the
  number zero exactly when that text is \<open>0\<close>.
\<close>

datatype json =
    JNull
  | JBool bool
  | JNumber string
  | JString string
  | JArray "json list"
  | JObject "(string \<times> json) list"

text \<open>
  What the environment delivers when an awaited promise settles: a rejection, a response
  (of which the source reads only \<open>ok\<close>), the text of a body, or the parsed body of the
  list resource.
\<close>

datatype outcome =
    Reject js_error
  | Response bool
  | Text string
  | Json json

datatype console_entry =
    Warn string
  | ErrorLog string js_error

section \<open>The detail view: UserPage\<close>

text \<open>
  \<open>fetchUserPageContent\<close> is an async function with four awaits. An invocation that
  is suspended at an await is a task: the identifier it captured when the effect ran
  and the await it is waiting at. The effect has no cleanup function and the source
  keeps no handle on an invocation, so every task lives on until it finishes.
\<close>

datatype pc =
    AwaitHtmlFetch
  | AwaitHtmlText
  | AwaitCssFetch
  | AwaitCssText
  | Finished

record task =
  t_slug :: string
  t_pc :: pc

text \<open>
  The component is the page of the dynamic route segment \<open>[slug]\<close>. The router keys the
  page by the value of the segment: while the value stays the same the mounted instance
  is rendered again, and another value unmounts the instance and mounts a fresh one.
  React ignores a state update of an unmounted instance. So the state holds the route
  parameter \<open>slug\<close> (absent when the router yields none) and the four \<open>useState\<close>
  cells of the mounted instance, and what surrounds them: all invocations started so
  far, which of them the mounted instance started (\<open>active\<close>; an instance starts at
  most one, since its effect runs again only when \<open>slug\<close> changes), the URLs the mounted
  instance requested in the order of its \<open>fetch\<close> calls (\<open>network\<close>), the URLs
  requested on behalf of unmounted instances (\<open>orphaned\<close>), and the console.
\<close>

record UserPage_state =
  slug :: "string option"
  htmlContent :: string
  cssContent :: string
  isLoading :: bool
  error :: "string option"
  tasks :: "task list"
  active :: "nat option"
  network :: "string list"
  orphaned :: "string list"
  console :: "console_entry list"

definition html_url :: "string \<Rightarrow> string" where
  "html_url s = ''/user_pages/'' @ s @ ''/index.html''"

definition css_url :: "string \<Rightarrow> string" where
  "css_url s = ''/user_pages/'' @ s @ ''/style.css''"

text \<open>
  A call of a state setter by invocation \<open>i\<close>: it takes effect when the instance that
  started \<open>i\<close> is the mounted one.
\<close>

definition setState ::
  "nat \<Rightarrow> (UserPage_state \<Rightarrow> UserPage_state) \<Rightarrow> UserPage_state \<Rightarrow> UserPage_state" where
  "setState i f w = (if active w = Some i then f w else w)"

text \<open>A call of \<open>fetch\<close> by invocation \<open>i\<close>: the request is issued in either case.\<close>

definition fetch :: "nat \<Rightarrow> string \<Rightarrow> UserPage_state \<Rightarrow> UserPage_state" where
  "fetch i u w =
     (if active w = Some i then w\<lparr>network := network w @ [u]\<rparr>
      else w\<lparr>orphaned := orphaned w @ [u]\<rparr>)"

text \<open>The \<open>catch\<close> block followed by the \<open>finally\<close> block.\<close>

definition catch_finally :: "nat \<Rightarrow> js_error \<Rightarrow> UserPage_state \<Rightarrow> UserPage_state" where
  "catch_finally i err w =
     setState i (\<lambda>w. w\<lparr>isLoading := False\<rparr>)
       (setState i (\<lambda>w. w\<lparr>error := Some (load_failed @ or_else (message err) unknown_error)\<rparr>)
          (w\<lparr>console := console w @ [ErrorLog content_error_label err]\<rparr>))"

definition set_pc :: "nat \<Rightarrow> pc \<Rightarrow> UserPage_state \<Rightarrow> UserPage_state" where
  "set_pc i p w = w\<lparr>tasks := (tasks w)[i := (tasks w ! i)\<lparr>t_pc := p\<rparr>]\<rparr>"

text \<open>
  The start of \<open>fetchUserPageContent\<close> for identifier \<open>s\<close>, up to its first await. It
  runs inside the effect of the mounted instance: \<open>setIsLoading(true)\<close>,
  \<open>setError(null)\<close>, and the markup request is issued.
\<close>

definition fetchUserPageContent :: "string \<Rightarrow> UserPage_state \<Rightarrow> UserPage_state" where
  "fetchUserPageContent s w =
     w\<lparr>isLoading := True,
       error := None,
       tasks := tasks w @ [\<lparr>t_slug = s, t_pc = AwaitHtmlFetch\<rparr>],
       active := Some (length (tasks w)),
       network := network w @ [html_url s]\<rparr>"

text \<open>
  The rest of \<open>fetchUserPageContent\<close>: task \<open>i\<close>, which captured \<open>s\<close>, is resumed
  from await \<open>p\<close> with the outcome of the awaited promise. An outcome of the wrong kind
  for the await (or any outcome for a finished task) cannot happen: \<open>None\<close>.
\<close>

fun resume :: "nat \<Rightarrow> string \<Rightarrow> pc \<Rightarrow> outcome \<Rightarrow> UserPage_state \<Rightarrow> UserPage_state option" where
  "resume i s AwaitHtmlFetch (Reject e) w = Some (set_pc i Finished (catch_finally i e w))"
| "resume i s AwaitHtmlFetch (Response b) w =
     (if \<not> b then
        Some (set_pc i Finished (catch_finally i (Error (html_not_found @ html_url s)) w))
      else Some (set_pc i AwaitHtmlText w))"
| "resume i s AwaitHtmlText (Reject e) w = Some (set_pc i Finished (catch_finally i e w))"
| "resume i s AwaitHtmlText (Text h) w =
     Some (set_pc i AwaitCssFetch
       (fetch i (css_url s) (setState i (\<lambda>w. w\<lparr>htmlContent := h\<rparr>) w)))"
| "resume i s AwaitCssFetch (Reject e) w = Some (set_pc i Finished (catch_finally i e w))"
| "resume i s AwaitCssFetch (Response b) w =
     (if \<not> b then
        Some (set_pc i Finished
          (setState i (\<lambda>w. w\<lparr>isLoading := False\<rparr>)
            (setState i (\<lambda>w. w\<lparr>cssContent := []\<rparr>)
              (w\<lparr>console := console w @ [Warn (css_not_found @ css_url s @ css_not_applied)]\<rparr>))))
      else Some (set_pc i AwaitCssText w))"
| "resume i s AwaitCssText (Reject e) w = Some (set_pc i Finished (catch_finally i e w))"
| "resume i s AwaitCssText (Text c) w =
     Some (set_pc i Finished
       (setState i (\<lambda>w. w\<lparr>isLoading := False\<rparr>) (setState i (\<lambda>w. w\<lparr>cssContent := c\<rparr>) w)))"
| "resume i s _ _ w = None"

text \<open>
  The body of \<open>useEffect\<close>: with a falsy \<open>slug\<close> (absent or empty) it only clears the
  loading flag; otherwise it calls \<open>fetchUserPageContent\<close>.
\<close>

definition effect :: "UserPage_state \<Rightarrow> UserPage_state" where
  "effect w =
     (case slug w of
        None \<Rightarrow> w\<lparr>isLoading := False\<rparr>
      | Some s \<Rightarrow> if s = [] then w\<lparr>isLoading := False\<rparr> else fetchUserPageContent s w)"

text \<open>Mounting: the initial values of the \<open>useState\<close> cells, then the effect.\<close>

definition mount :: "string option \<Rightarrow> UserPage_state" where
  "mount p =
     effect \<lparr>slug = p, htmlContent = [], cssContent = [], isLoading = True, error = None,
             tasks = [], active = None, network = [], orphaned = [], console = []\<rparr>"

text \<open>
  Another value of the route parameter: the mounted instance is unmounted, so that its
  invocation, if it started one, goes on without an instance and its requests count as
  orphaned; a fresh instance is mounted with the initial cells, and its effect runs.
\<close>

definition remount :: "string option \<Rightarrow> UserPage_state \<Rightarrow> UserPage_state" where
  "remount p w =
     effect (w\<lparr>slug := p, htmlContent := [], cssContent := [], isLoading := True,
              error := None, active := None, network := [],
              orphaned := orphaned w @ network w\<rparr>)"

text \<open>
  What can happen to the page: the router delivers a route parameter, or the promise a
  task awaits settles. Scheduling is single-threaded, so events are handled one at a time.
\<close>

datatype event =
    is_Navigate: Navigate "string option"
  | is_Settle: Settle nat outcome

fun step :: "UserPage_state \<Rightarrow> event \<Rightarrow> UserPage_state option" where
  "step w (Navigate p) = Some (if p = slug w then w else remount p w)"
| "step w (Settle i r) =
     (if i < length (tasks w) then resume i (t_slug (tasks w ! i)) (t_pc (tasks w ! i)) r w
      else None)"

fun run :: "UserPage_state \<Rightarrow> event list \<Rightarrow> UserPage_state option" where
  "run w [] = Some w"
| "run w (e # es) = (case step w e of None \<Rightarrow> None | Some w' \<Rightarrow> run w' es)"

text \<open>What the component returns: the loading screen, the error screen, or the content.\<close>

datatype screen =
    LoadingScreen
  | ErrorScreen string
  | ContentScreen string string

definition UserPage :: "UserPage_state \<Rightarrow> screen" where
  "UserPage w =
     (if isLoading w then LoadingScreen
      else case error w of
        None \<Rightarrow> ContentScreen (cssContent w) (htmlContent w)
      | Some m \<Rightarrow> if m \<noteq> [] then ErrorScreen m else ContentScreen (cssContent w) (htmlContent w))"

section \<open>The list view: HomePage\<close>

text \<open>
  \<open>fetchUsers\<close> has two awaits and runs once, when the component mounts (the effect's
  dependency list is empty). The state cells \<open>isLoading\<close> and \<open>error\<close> of \<open>HomePage\<close>
  carry the prefix \<open>home_\<close> here, since \<open>UserPage\<close> has cells of the same names. The
  cell \<open>userSlugs\<close> holds whatever value the parsed body is.
\<close>

datatype home_pc =
    AwaitListFetch
  | AwaitListJson
  | ListFinished

record HomePage_state =
  userSlugs :: json
  home_isLoading :: bool
  home_error :: "string option"
  home_pc :: home_pc
  home_network :: "string list"
  home_console :: "console_entry list"

definition list_url :: string where
  "list_url = ''/user_list.json''"

definition home_catch_finally :: "js_error \<Rightarrow> HomePage_state \<Rightarrow> HomePage_state" where
  "home_catch_finally err w =
     w\<lparr>home_console := home_console w @ [ErrorLog list_error_label err],
       home_error := Some (or_else (message err) list_unknown_error),
       home_isLoading := False,
       home_pc := ListFinished\<rparr>"

text \<open>Mounting: the initial cells, and \<open>fetchUsers\<close> up to its first await.\<close>

definition home_mount :: HomePage_state where
  "home_mount =
     \<lparr>userSlugs = JArray [], home_isLoading = True, home_error = None,
      home_pc = AwaitListFetch, home_network = [list_url], home_console = []\<rparr>"

text \<open>The rest of \<open>fetchUsers\<close>, resumed with the outcome of the awaited promise.\<close>

fun fetchUsers :: "home_pc \<Rightarrow> outcome \<Rightarrow> HomePage_state \<Rightarrow> HomePage_state option" where
  "fetchUsers AwaitListFetch (Reject e) w = Some (home_catch_finally e w)"
| "fetchUsers AwaitListFetch (Response b) w =
     (if \<not> b then Some (home_catch_finally (Error list_load_failed) w)
      else Some (w\<lparr>home_pc := AwaitListJson\<rparr>))"
| "fetchUsers AwaitListJson (Reject e) w = Some (home_catch_finally e w)"
| "fetchUsers AwaitListJson (Json data) w =
     Some (w\<lparr>userSlugs := data, home_isLoading := False, home_pc := ListFinished\<rparr>)"
| "fetchUsers _ _ w = None"

definition home_step :: "HomePage_state \<Rightarrow> outcome \<Rightarrow> HomePage_state option" where
  "home_step w r = fetchUsers (home_pc w) r w"

fun home_run :: "HomePage_state \<Rightarrow> outcome list \<Rightarrow> HomePage_state option" where
  "home_run w [] = Some w"
| "home_run w (r # rs) = (case home_step w r of None \<Rightarrow> None | Some w' \<Rightarrow> home_run w' rs)"

text \<open>
  The conversion of a value to a string, as a template literal and a React key do it:
  an array is its elements joined by commas, where \<open>null\<close> gives the empty string, and
  an object is \<open>[object Object]\<close>.
\<close>

fun join :: "string list \<Rightarrow> string" where
  "join [] = []"
| "join [s] = s"
| "join (s # t # ts) = s @ '','' @ join (t # ts)"

fun to_string :: "json \<Rightarrow> string" where
  "to_string JNull = ''null''"
| "to_string (JBool b) = (if b then ''true'' else ''false'')"
| "to_string (JNumber n) = n"
| "to_string (JString s) = s"
| "to_string (JArray vs) = join (map (\<lambda>v. if v = JNull then [] else to_string v) vs)"
| "to_string (JObject kvs) = ''[object Object]''"

text \<open>
  The text React shows for a value used as a child: a string or a number is shown,
  a boolean and \<open>null\<close> show nothing, an array shows its elements one after the other,
  and an object makes rendering throw (\<open>None\<close>).
\<close>

fun child_text :: "json \<Rightarrow> string option" where
  "child_text JNull = Some []"
| "child_text (JBool b) = Some []"
| "child_text (JNumber n) = Some n"
| "child_text (JString s) = Some s"
| "child_text (JArray vs) = map_option concat (those (map child_text vs))"
| "child_text (JObject kvs) = None"

text \<open>
  What the component returns. An entry of the grid is a \<open>Link\<close> with its \<open>key\<close>, its
  \<open>href\<close> and the text of its heading. Rendering can throw: the source reads
  \<open>userSlugs.length\<close> and calls \<open>userSlugs.map\<close> on whatever the cell holds.
\<close>

datatype link = Link (key: string) (href: string) (heading: string)

datatype home_screen =
    HomeLoading
  | HomeError string
  | HomeEmpty
  | HomeGrid "link list"
  | HomeThrows

text \<open>One step of \<open>userSlugs.map\<close>: the entry for the element \<open>v\<close>, which the source calls \<open>slug\<close>.\<close>

definition entry :: "json \<Rightarrow> link option" where
  "entry v =
     map_option (\<lambda>t. Link (to_string v) (''/users/'' @ to_string v) t) (child_text v)"

text \<open>
  \<open>userSlugs.length === 0 ? ... : userSlugs.map(...)\<close>. Only an array has \<open>map\<close>;
  an array and a string have a \<open>length\<close>, an object has one when it has that key (the
  last one wins), reading it from \<open>null\<close> throws, and any other value has none.
\<close>

fun member_list :: "json \<Rightarrow> home_screen" where
  "member_list (JArray slugs) =
     (if length slugs = 0 then HomeEmpty
      else case those (map entry slugs) of None \<Rightarrow> HomeThrows | Some ls \<Rightarrow> HomeGrid ls)"
| "member_list (JString s) = (if length s = 0 then HomeEmpty else HomeThrows)"
| "member_list (JObject kvs) =
     (if map_of (rev kvs) ''length'' = Some (JNumber ''0'') then HomeEmpty else HomeThrows)"
| "member_list _ = HomeThrows"

definition HomePage :: "HomePage_state \<Rightarrow> home_screen" where
  "HomePage w =
     (if home_isLoading w then HomeLoading
      else case home_error w of
        None \<Rightarrow> member_list (userSlugs w)
      | Some m \<Rightarrow> if m \<noteq> [] then HomeError m else member_list (userSlugs w))"

text \<open>The entries a screen shows: those of the grid, and none on any other screen.\<close>

fun entries :: "home_screen \<Rightarrow> link list" where
  "entries (HomeGrid ls) = ls"
| "entries _ = []"

section \<open>Runs and invariants of the detail view\<close>

text \<open>
  An event keeps the route parameter \<open>p\<close> when it is not a navigation to another
  parameter. A page is quiescent when none of its invocations is suspended, and the
  mounted instance is pending when the invocation it started is suspended.
\<close>

fun keeps_slug :: "string option \<Rightarrow> event \<Rightarrow> bool" where
  "keeps_slug p (Navigate q) = (q = p)"
| "keeps_slug p (Settle i r) = True"

definition quiescent :: "UserPage_state \<Rightarrow> bool" where
  "quiescent w = list_all (\<lambda>t. t_pc t = Finished) (tasks w)"





section \<open>Basic facts\<close>

lemmas UserPage_defs =
  mount_def remount_def effect_def fetchUserPageContent_def set_pc_def catch_finally_def
  setState_def fetch_def

lemmas HomePage_defs = home_mount_def home_step_def home_catch_finally_def

lemma html_url_nonempty [simp]: "html_url x \<noteq> []"
  by (simp add: html_url_def)

lemma html_css_url_distinct [simp]: "html_url x \<noteq> css_url y" "css_url y \<noteq> html_url x"
  by (auto simp: html_url_def css_url_def dest: arg_cong[where f=last])

lemma load_failed_nonempty [simp]: "load_failed \<noteq> []"
  by (simp add: load_failed_def utf8_def)

lemma list_load_failed_nonempty [simp]: "list_load_failed \<noteq> []"
  by (simp add: list_load_failed_def utf8_def)

lemma list_unknown_error_nonempty [simp]: "list_unknown_error \<noteq> []"
  by (simp add: list_unknown_error_def utf8_def)

lemma or_else_nonempty [simp]: "b \<noteq> [] \<Longrightarrow> or_else a b \<noteq> []"
  by (simp add: or_else_def)

lemma or_else_left [simp]: "a \<noteq> [] \<Longrightarrow> or_else a b = a"
  by (simp add: or_else_def)

lemma run_append:
  "run w (es @ fs) = (case run w es of None \<Rightarrow> None | Some w' \<Rightarrow> run w' fs)"
  by (induction es arbitrary: w) (auto split: option.splits)

text \<open>Nothing is pending in a quiescent page, so no promise can settle.\<close>

lemma quiescent_settle: "quiescent w \<Longrightarrow> step w (Settle i r) = None"
  by (simp add: quiescent_def list_all_length)

text \<open>A quiescent page stays as it is until the route parameter changes.\<close>

lemma quiescent_run:
  "quiescent w \<Longrightarrow> list_all (keeps_slug (slug w)) es \<Longrightarrow> run w es = Some w' \<Longrightarrow> w' = w"
proof (induction es)
  case Nil
  then show ?case by simp
next
  case (Cons e es)
  show ?case
  proof (cases e)
    case (Navigate q)
    with Cons.prems have "step w e = Some w" by simp
    with Cons show ?thesis by simp
  next
    case (Settle i r)
    have "step w e = None"
      unfolding Settle by (rule quiescent_settle [OF Cons.prems(1)])
    with Cons.prems(3) show ?thesis by simp
  qed
qed













section \<open>The detail view: failures of the two resources\<close>

text \<open>
  C1 (as stated). The markup request resolves with a success status and delivers its
  markup, and the stylesheet request fails by being rejected: the rejection reaches the
  \<open>catch\<close> block, the error cell is set, the console receives a \<open>console.error\<close>, and
  the view shows the error screen, not the markup.
\<close>

theorem rejected_stylesheet_request_shows_error:
  "run (mount (Some ''tanaka''))
     [Settle 0 (Response True), Settle 0 (Text ''<h1>hi</h1>''),
      Settle 0 (Reject (Error ''Failed to fetch''))]
   = Some \<lparr>slug = Some ''tanaka'', htmlContent = ''<h1>hi</h1>'', cssContent = [],
       isLoading = False, error = Some (load_failed @ ''Failed to fetch''),
       tasks = [\<lparr>t_slug = ''tanaka'', t_pc = Finished\<rparr>], active = Some 0,
       network = [''/user_pages/tanaka/index.html'', ''/user_pages/tanaka/style.css''],
       orphaned = [],
       console = [ErrorLog content_error_label (Error ''Failed to fetch'')]\<rparr>
   \<and> UserPage \<lparr>slug = Some ''tanaka'', htmlContent = ''<h1>hi</h1>'', cssContent = [],
       isLoading = False, error = Some (load_failed @ ''Failed to fetch''),
       tasks = [\<lparr>t_slug = ''tanaka'', t_pc = Finished\<rparr>], active = Some 0,
       network = [''/user_pages/tanaka/index.html'', ''/user_pages/tanaka/style.css''],
       orphaned = [],
       console = [ErrorLog content_error_label (Error ''Failed to fetch'')]\<rparr>
     = ErrorScreen (load_failed @ ''Failed to fetch'')"
  by (simp add: UserPage_defs UserPage_def html_url_def css_url_def)

text \<open>
  C1 (as amended). For every identifier \<open>x\<close>: when the markup request resolves with a
  success status and delivers the markup \<open>h\<close>, and the stylesheet request resolves with
  a non-success status, the view shows the markup \<open>h\<close> with the empty stylesheet, the
  error cell stays \<open>null\<close>, and the only diagnostic is one \<open>console.warn\<close>. When the
  stylesheet request is rejected instead, the view shows the error screen with the
  message of the rejection, and the diagnostic is one \<open>console.error\<close>.
\<close>

theorem stylesheet_not_found_is_nonfatal:
  assumes "x \<noteq> []"
  shows "(\<exists>w. run (mount (Some x))
            [Settle 0 (Response True), Settle 0 (Text h), Settle 0 (Response False)] = Some w
      \<and> UserPage w = ContentScreen [] h
      \<and> htmlContent w = h \<and> cssContent w = []
      \<and> error w = None
      \<and> console w = [Warn (css_not_found @ ''/user_pages/'' @ x @ ''/style.css'' @ css_not_applied)])
    \<and> (\<exists>w. run (mount (Some x))
            [Settle 0 (Response True), Settle 0 (Text h), Settle 0 (Reject e)] = Some w
      \<and> UserPage w = ErrorScreen (load_failed @ or_else (message e) unknown_error)
      \<and> htmlContent w = h \<and> cssContent w = []
      \<and> error w = Some (load_failed @ or_else (message e) unknown_error)
      \<and> console w = [ErrorLog content_error_label e])"
  using assms by (simp add: UserPage_defs UserPage_def css_url_def)

theorem stylesheet_not_found_is_nonfatal_witness:
  "''tanaka'' \<noteq> [] \<and>
   (\<exists>w. run (mount (Some ''tanaka''))
          [Settle 0 (Response True), Settle 0 (Text ''<h1>hi</h1>''), Settle 0 (Response False)]
        = Some w
    \<and> UserPage w = ContentScreen [] ''<h1>hi</h1>''
    \<and> htmlContent w = ''<h1>hi</h1>'' \<and> cssContent w = []
    \<and> error w = None
    \<and> console w = [Warn (css_not_found @ ''/user_pages/'' @ ''tanaka'' @ ''/style.css'' @ css_not_applied)])"
  using stylesheet_not_found_is_nonfatal [of "''tanaka''" "''<h1>hi</h1>''"] by simp

text \<open>
  C2. For every identifier \<open>x\<close>: when the markup request resolves with a non-success
  status, the error cell holds a message that ends with the path
  \<open>/user_pages/x/index.html\<close>, the view shows the error screen with that message, the
  markup cell was never written, the markup request is the only request ever issued,
  and nothing more happens while the identifier stays \<open>x\<close>: no promise is pending, and
  every further run leaves the page as it is.
\<close>

theorem markup_not_found_is_fatal:
  assumes "x \<noteq> []"
  shows "\<exists>w. run (mount (Some x)) [Settle 0 (Response False)] = Some w
    \<and> error w = Some (load_failed @ html_not_found @ ''/user_pages/'' @ x @ ''/index.html'')
    \<and> UserPage w =
        ErrorScreen (load_failed @ html_not_found @ ''/user_pages/'' @ x @ ''/index.html'')
    \<and> htmlContent w = []
    \<and> network w = [''/user_pages/'' @ x @ ''/index.html'']
    \<and> (\<forall>i r. step w (Settle i r) = None)
    \<and> (\<forall>es w'. list_all (keeps_slug (Some x)) es \<longrightarrow> run w es = Some w' \<longrightarrow> w' = w)"
proof -
  let ?m = "load_failed @ html_not_found @ html_url x"
  let ?w = "\<lparr>slug = Some x, htmlContent = [], cssContent = [], isLoading = False,
     error = Some ?m, tasks = [\<lparr>t_slug = x, t_pc = Finished\<rparr>], active = Some 0,
     network = [html_url x], orphaned = [],
     console = [ErrorLog content_error_label (Error (html_not_found @ html_url x))]\<rparr>"
  have r: "run (mount (Some x)) [Settle 0 (Response False)] = Some ?w"
    using assms by (simp add: UserPage_defs)
  have q: "quiescent ?w" by (simp add: quiescent_def)
  have t: "\<forall>es w'. list_all (keeps_slug (Some x)) es \<longrightarrow> run ?w es = Some w' \<longrightarrow> w' = ?w"
    using quiescent_run [OF q] by simp
  have s: "\<forall>i r. step ?w (Settle i r) = None"
    using quiescent_settle [OF q] by blast
  have u: "UserPage ?w = ErrorScreen ?m" by (simp add: UserPage_def)
  show ?thesis
    unfolding r using t s u by (simp add: html_url_def)
qed

theorem markup_not_found_is_fatal_witness:
  "''tanaka'' \<noteq> [] \<and>
   (\<exists>w. run (mount (Some ''tanaka'')) [Settle 0 (Response False)] = Some w
    \<and> error w = Some (load_failed @ html_not_found @ ''/user_pages/tanaka/index.html'')
    \<and> UserPage w = ErrorScreen (load_failed @ html_not_found @ ''/user_pages/tanaka/index.html'')
    \<and> htmlContent w = []
    \<and> network w = [''/user_pages/tanaka/index.html'']
    \<and> (\<forall>i r. step w (Settle i r) = None)
    \<and> run w [Navigate (Some ''tanaka'')] = Some w)"
proof -
  obtain w where w: "run (mount (Some ''tanaka'')) [Settle 0 (Response False)] = Some w"
    and e: "error w = Some (load_failed @ html_not_found @ ''/user_pages/'' @ ''tanaka'' @ ''/index.html'')"
    and u: "UserPage w =
        ErrorScreen (load_failed @ html_not_found @ ''/user_pages/'' @ ''tanaka'' @ ''/index.html'')"
    and h: "htmlContent w = []"
    and n: "network w = [''/user_pages/'' @ ''tanaka'' @ ''/index.html'']"
    and s: "\<forall>i r. step w (Settle i r) = None"
    and t: "\<forall>es w'. list_all (keeps_slug (Some ''tanaka'')) es \<longrightarrow> run w es = Some w' \<longrightarrow> w' = w"
    using markup_not_found_is_fatal [of "''tanaka''"] by auto
  have "slug w = Some ''tanaka''"
    using w by (simp add: UserPage_defs) auto
  then have "run w [Navigate (Some ''tanaka'')] = Some w" by simp
  with w e u h n s show ?thesis by auto
qed

text \<open>
  C4 (as stated). The stylesheet request is rejected after the markup was delivered:
  the rejection is thrown into the one \<open>catch\<close> block, and the view shows the error
  screen with the message of the rejection.
\<close>

theorem stylesheet_rejection_is_fatal:
  "map_option UserPage (run (mount (Some ''a''))
     [Settle 0 (Response True), Settle 0 (Text ''<h1>a</h1>''),
      Settle 0 (Reject (Error ''Failed to fetch''))])
   = Some (ErrorScreen (load_failed @ ''Failed to fetch''))"
  by (simp add: UserPage_defs UserPage_def)

text \<open>
  C4 (as amended). For every identifier \<open>x\<close>, the complete runs of one fetch sequence,
  each with the screen shown at its end and the requests issued. With the markup
  delivered, a stylesheet response of either status leads to the content screen (a
  non-success status with the empty stylesheet). A markup response with a non-success
  status, a rejected markup request and a rejected markup body read lead to the error
  screen, and the markup request is the only request issued. A rejected stylesheet
  request and a rejected stylesheet body read lead to the error screen as well. No
  request is issued on behalf of another instance.
\<close>

theorem readiness_by_markup_and_stylesheet_rejection:
  assumes "x \<noteq> []"
  shows "map_option (\<lambda>w. (UserPage w, network w))
       (run (mount (Some x)) [Settle 0 (Response True), Settle 0 (Text h), Settle 0 (Response False)])
     = Some (ContentScreen [] h, [html_url x, css_url x])
   \<and> map_option (\<lambda>w. (UserPage w, network w))
       (run (mount (Some x))
         [Settle 0 (Response True), Settle 0 (Text h), Settle 0 (Response True), Settle 0 (Text c)])
     = Some (ContentScreen c h, [html_url x, css_url x])
   \<and> map_option (\<lambda>w. (UserPage w, network w)) (run (mount (Some x)) [Settle 0 (Response False)])
     = Some (ErrorScreen (load_failed @ html_not_found @ html_url x), [html_url x])
   \<and> map_option (\<lambda>w. (UserPage w, network w)) (run (mount (Some x)) [Settle 0 (Reject e)])
     = Some (ErrorScreen (load_failed @ or_else (message e) unknown_error), [html_url x])
   \<and> map_option (\<lambda>w. (UserPage w, network w))
       (run (mount (Some x)) [Settle 0 (Response True), Settle 0 (Reject e)])
     = Some (ErrorScreen (load_failed @ or_else (message e) unknown_error), [html_url x])
   \<and> map_option (\<lambda>w. (UserPage w, network w))
       (run (mount (Some x)) [Settle 0 (Response True), Settle 0 (Text h), Settle 0 (Reject e)])
     = Some (ErrorScreen (load_failed @ or_else (message e) unknown_error),
             [html_url x, css_url x])
   \<and> map_option (\<lambda>w. (UserPage w, network w))
       (run (mount (Some x))
         [Settle 0 (Response True), Settle 0 (Text h), Settle 0 (Response True), Settle 0 (Reject e)])
     = Some (ErrorScreen (load_failed @ or_else (message e) unknown_error),
             [html_url x, css_url x])
   \<and> (\<forall>es w. list_all (keeps_slug (Some x)) es \<longrightarrow> run (mount (Some x)) es = Some w
         \<longrightarrow> orphaned w = [])"
proof -
  have o: "orphaned w = [] \<and> active w = Some 0 \<and> length (tasks w) = 1"
    if "list_all (keeps_slug (Some x)) es" "run w0 es = Some w"
      "orphaned w0 = [] \<and> active w0 = Some 0 \<and> length (tasks w0) = 1 \<and> slug w0 = Some x"
    for es w0 w
    using that
  proof (induction es arbitrary: w0)
    case Nil
    then show ?case by simp
  next
    case (Cons ev es)
    from Cons.prems(2) obtain w1 where w1: "step w0 ev = Some w1" "run w1 es = Some w"
      by (auto split: option.splits)
    have "orphaned w1 = [] \<and> active w1 = Some 0 \<and> length (tasks w1) = 1 \<and> slug w1 = Some x"
    proof (cases ev)
      case (Navigate q)
      with Cons.prems(1,3) w1(1) show ?thesis by auto
    next
      case (Settle i r)
      with w1(1) Cons.prems(3) have i: "i = 0" by (simp split: if_splits)
      from w1(1) Cons.prems(3) show ?thesis
        unfolding Settle i
        by (cases "t_pc (tasks w0 ! 0)"; cases r)
           (auto simp: set_pc_def catch_finally_def setState_def fetch_def split: if_splits)
    qed
    with Cons.IH [OF _ w1(2)] Cons.prems(1) show ?case by simp
  qed
  have m: "orphaned (mount (Some x)) = [] \<and> active (mount (Some x)) = Some 0
    \<and> length (tasks (mount (Some x))) = 1 \<and> slug (mount (Some x)) = Some x"
    using assms by (simp add: UserPage_defs)
  have last: "\<forall>es w. list_all (keeps_slug (Some x)) es \<longrightarrow> run (mount (Some x)) es = Some w
         \<longrightarrow> orphaned w = []"
    using o m by blast
  show ?thesis
    using assms last by (simp add: UserPage_defs UserPage_def)
qed

theorem readiness_by_markup_and_stylesheet_rejection_witness:
  "''a'' \<noteq> []
   \<and> map_option (\<lambda>w. (UserPage w, network w)) (run (mount (Some ''a''))
       [Settle 0 (Response True), Settle 0 (Text ''<p>hi</p>''), Settle 0 (Response False)])
     = Some (ContentScreen [] ''<p>hi</p>'', [html_url ''a'', css_url ''a''])
   \<and> map_option (\<lambda>w. (UserPage w, network w)) (run (mount (Some ''a''))
       [Settle 0 (Response True), Settle 0 (Text ''<p>hi</p>''), Settle 0 (Response True),
        Settle 0 (Text ''p {}'')])
     = Some (ContentScreen ''p {}'' ''<p>hi</p>'', [html_url ''a'', css_url ''a''])
   \<and> map_option (\<lambda>w. (UserPage w, network w))
       (run (mount (Some ''a'')) [Settle 0 (Response True), Settle 0 (Reject (Error []))])
     = Some (ErrorScreen (load_failed @ unknown_error), [html_url ''a''])
   \<and> map_option (\<lambda>w. (UserPage w, network w)) (run (mount (Some ''a''))
       [Settle 0 (Response True), Settle 0 (Text ''<p>hi</p>''), Settle 0 (Reject (Error []))])
     = Some (ErrorScreen (load_failed @ unknown_error), [html_url ''a'', css_url ''a''])"
  using readiness_by_markup_and_stylesheet_rejection
    [of "''a''" "''<p>hi</p>''" "''p {}''" "Error []"]
  by (simp add: or_else_def)

section \<open>The detail view: a change of identifier while requests are in flight\<close>



section \<open>The detail view: the order of the requests and the loading flag\<close>




lemma css_needs_markup_ok:
  assumes "slug w0 = Some x" and "tasks w0 = [\<lparr>t_slug = x, t_pc = AwaitHtmlFetch\<rparr>]"
    and "css_url x \<notin> set (network w0)"
  shows "list_all (keeps_slug (Some x)) es \<Longrightarrow> run w0 es = Some w
    \<Longrightarrow> css_url x \<in> set (network w)
    \<Longrightarrow> \<exists>es1 es2. es = es1 @ Settle 0 (Response True) # es2 \<and> run w0 es1 = Some w0"
proof (induction es)
  case Nil
  with assms(3) show ?case by simp
next
  case (Cons e es)
  show ?case
  proof (cases e)
    case (Navigate q)
    with Cons.prems(1) assms(1) have st: "step w0 e = Some w0" by simp
    with Cons.prems have "run w0 es = Some w" by simp
    with Cons.IH Cons.prems obtain es1 es2
      where "es = es1 @ Settle 0 (Response True) # es2" "run w0 es1 = Some w0"
      by auto
    with st have "e # es = (e # es1) @ Settle 0 (Response True) # es2 \<and> run w0 (e # es1) = Some w0"
      by simp
    then show ?thesis by blast
  next
    case (Settle i r)
    from Cons.prems(2) Settle assms(2) have i: "i = 0" by (simp split: if_splits)
    have failed: "w = set_pc 0 Finished (catch_finally 0 err w0)"
      if "step w0 e = Some (set_pc 0 Finished (catch_finally 0 err w0))" for err
    proof -
      let ?w1 = "set_pc 0 Finished (catch_finally 0 err w0)"
      have q: "quiescent ?w1"
        using assms(2) by (simp add: quiescent_def set_pc_def catch_finally_def setState_def)
      have s: "slug ?w1 = Some x"
        using assms(1) by (simp add: set_pc_def catch_finally_def setState_def)
      from that Cons.prems(2) have r: "run ?w1 es = Some w" by simp
      from s Cons.prems(1) have k: "list_all (keeps_slug (slug ?w1)) es" by simp
      show ?thesis by (rule quiescent_run [OF q k r])
    qed
    have nw: "network (set_pc 0 Finished (catch_finally 0 err w0)) = network w0" for err
      by (simp add: set_pc_def catch_finally_def setState_def)
    show ?thesis
    proof (cases r)
      case (Reject err)
      with Settle i assms(2) have "step w0 e = Some (set_pc 0 Finished (catch_finally 0 err w0))"
        by simp
      from failed [OF this] nw Cons.prems(3) assms(3) show ?thesis by simp
    next
      case (Response b)
      show ?thesis
      proof (cases b)
        case True
        with Response Settle i have "e # es = [] @ Settle 0 (Response True) # es \<and> run w0 [] = Some w0"
          by simp
        then show ?thesis by blast
      next
        case False
        with Response Settle i assms(2)
        have "step w0 e = Some (set_pc 0 Finished
                (catch_finally 0 (Error (html_not_found @ html_url x)) w0))"
          by simp
        from failed [OF this] nw Cons.prems(3) assms(3) show ?thesis by simp
      qed
    next
      case (Text h)
      with Settle i assms(2) Cons.prems(2) show ?thesis by simp
    next
      case (Json d)
      with Settle i assms(2) Cons.prems(2) show ?thesis by simp
    qed
  qed
qed

lemma markup_failure_final:
  assumes "x \<noteq> []" and "r = Response False \<or> (\<exists>e. r = Reject e)"
    and "list_all (keeps_slug (Some x)) es" and "run (mount (Some x)) (Settle 0 r # es) = Some w"
  shows "network w = [html_url x]"
proof -
  obtain w1 where w1: "step (mount (Some x)) (Settle 0 r) = Some w1" "run w1 es = Some w"
    using assms(4) by (auto split: option.splits)
  from assms(1,2) w1(1) have q: "quiescent w1" and s: "slug w1 = Some x"
    and n: "network w1 = [html_url x]"
    by (auto simp: UserPage_defs quiescent_def)
  from quiescent_run [OF q] s assms(3) w1(2) have "w = w1" by simp
  with n show ?thesis by simp
qed

text \<open>
  C10. For every identifier \<open>x\<close>, in every run in which the identifier stays \<open>x\<close>:
  when the stylesheet request has been issued, the run contains the markup response
  with a success status, delivered in the state the view had at mounting, where the
  markup request is the only request issued; and when the promise of the markup request
  settles in that state with a non-success status or a rejection, the markup request
  remains the only request issued, whatever follows.
\<close>

theorem stylesheet_requested_after_markup_success:
  assumes "x \<noteq> []" and "list_all (keeps_slug (Some x)) es"
    and "run (mount (Some x)) es = Some w"
  shows "(css_url x \<in> set (network w) \<longrightarrow>
           (\<exists>es1 es2. es = es1 @ Settle 0 (Response True) # es2
              \<and> run (mount (Some x)) es1 = Some (mount (Some x))
              \<and> network (mount (Some x)) = [html_url x]))
       \<and> (\<forall>es1 r es2. es = es1 @ Settle 0 r # es2
              \<and> run (mount (Some x)) es1 = Some (mount (Some x))
              \<and> (r = Response False \<or> (\<exists>e. r = Reject e))
            \<longrightarrow> network w = [html_url x])"
proof -
  let ?w0 = "mount (Some x)"
  have m: "slug ?w0 = Some x" "tasks ?w0 = [\<lparr>t_slug = x, t_pc = AwaitHtmlFetch\<rparr>]"
    "network ?w0 = [html_url x]"
    using assms(1) by (simp_all add: UserPage_defs)
  have c: "css_url x \<notin> set (network ?w0)" using m(3) by simp
  have a: "css_url x \<in> set (network w) \<longrightarrow>
           (\<exists>es1 es2. es = es1 @ Settle 0 (Response True) # es2
              \<and> run ?w0 es1 = Some ?w0 \<and> network ?w0 = [html_url x])"
    using css_needs_markup_ok [OF m(1,2) c assms(2,3)] m(3) by blast
  have b: "network w = [html_url x]"
    if "es = es1 @ Settle 0 r # es2" and "run ?w0 es1 = Some ?w0"
      and "r = Response False \<or> (\<exists>e. r = Reject e)" for es1 r es2
  proof -
    from that(1,2) assms(3) have "run ?w0 (Settle 0 r # es2) = Some w"
      by (simp add: run_append)
    moreover from that(1) assms(2) have "list_all (keeps_slug (Some x)) es2" by simp
    ultimately show ?thesis
      using markup_failure_final [OF assms(1) that(3)] by blast
  qed
  from a b show ?thesis by blast
qed

theorem stylesheet_requested_after_markup_success_witness:
  "''a'' \<noteq> []
   \<and> list_all (keeps_slug (Some ''a'')) [Settle 0 (Response True), Settle 0 (Text ''<p>hi</p>'')]
   \<and> run (mount (Some ''a'')) [Settle 0 (Response True), Settle 0 (Text ''<p>hi</p>'')]
     = Some \<lparr>slug = Some ''a'', htmlContent = ''<p>hi</p>'', cssContent = [],
         isLoading = True, error = None, tasks = [\<lparr>t_slug = ''a'', t_pc = AwaitCssFetch\<rparr>],
         active = Some 0, network = [html_url ''a'', css_url ''a''], orphaned = [],
         console = []\<rparr>
   \<and> (\<exists>es1 es2. [Settle 0 (Response True), Settle 0 (Text ''<p>hi</p>'')]
          = es1 @ Settle 0 (Response True) # es2
        \<and> run (mount (Some ''a'')) es1 = Some (mount (Some ''a'')))
   \<and> list_all (keeps_slug (Some ''a'')) [Settle 0 (Response False)]
   \<and> map_option network (run (mount (Some ''a'')) [Settle 0 (Response False)])
     = Some [html_url ''a'']"
proof -
  let ?es = "[Settle 0 (Response True), Settle 0 (Text ''<p>hi</p>'')]"
  let ?w = "\<lparr>slug = Some ''a'', htmlContent = ''<p>hi</p>'', cssContent = [],
         isLoading = True, error = None, tasks = [\<lparr>t_slug = ''a'', t_pc = AwaitCssFetch\<rparr>],
         active = Some 0, network = [html_url ''a'', css_url ''a''], orphaned = [],
         console = []\<rparr>"
  have h1: "''a'' \<noteq> []" by simp
  have h2: "list_all (keeps_slug (Some ''a'')) ?es" by simp
  have h3: "run (mount (Some ''a'')) ?es = Some ?w" by (simp add: UserPage_defs)
  have c: "css_url ''a'' \<in> set (network ?w)" by simp
  from stylesheet_requested_after_markup_success [OF h1 h2 h3] c
  have a: "\<exists>es1 es2. ?es = es1 @ Settle 0 (Response True) # es2
        \<and> run (mount (Some ''a'')) es1 = Some (mount (Some ''a''))"
    by blast
  have k: "list_all (keeps_slug (Some ''a'')) [Settle 0 (Response False)]" by simp
  obtain w' where r: "run (mount (Some ''a'')) [Settle 0 (Response False)] = Some w'"
    by (simp add: UserPage_defs)
  have s: "[Settle 0 (Response False)] = [] @ Settle 0 (Response False) # []
      \<and> run (mount (Some ''a'')) [] = Some (mount (Some ''a''))
      \<and> (Response False = Response False \<or> (\<exists>e. Response False = Reject e))"
    by simp
  from stylesheet_requested_after_markup_success [OF h1 k r] s
  have "network w' = [html_url ''a'']" by blast
  with r have b: "map_option network (run (mount (Some ''a'')) [Settle 0 (Response False)])
     = Some [html_url ''a'']"
    by simp
  from h1 h2 h3 a k b show ?thesis by blast
qed

section \<open>The detail view without an identifier\<close>

text \<open>
  C9. When the route yields no identifier (the parameter is absent or the empty
  string), mounting issues no request and starts no invocation, the loading flag is
  cleared at once, the error cell is \<open>null\<close>, and the view shows the content screen
  with empty markup and empty stylesheet; no promise is pending, so it stays there.
\<close>

theorem no_identifier_shows_empty_content:
  "mount None = \<lparr>slug = None, htmlContent = [], cssContent = [], isLoading = False,
       error = None, tasks = [], active = None, network = [], orphaned = [], console = []\<rparr>
   \<and> mount (Some []) = \<lparr>slug = Some [], htmlContent = [], cssContent = [], isLoading = False,
       error = None, tasks = [], active = None, network = [], orphaned = [], console = []\<rparr>
   \<and> UserPage (mount None) = ContentScreen [] []
   \<and> UserPage (mount (Some [])) = ContentScreen [] []
   \<and> (\<forall>i r. step (mount None) (Settle i r) = None)
   \<and> (\<forall>i r. step (mount (Some [])) (Settle i r) = None)"
  by (simp add: UserPage_defs UserPage_def)

section \<open>The list view\<close>

lemma entry_strings:
  "those (map entry (map JString xs)) = Some (map (\<lambda>slug. Link slug (''/users/'' @ slug) slug) xs)"
  by (induction xs) (simp_all add: entry_def)

text \<open>
  C5. For every list of identifiers that the list resource delivers with a success
  status, the list view shows one entry for each identifier, in the order of the list,
  and the entry of an identifier links to \<open>/users/\<close> followed by that identifier; for
  the list of \<open>a\<close> and \<open>b\<close> these are two entries, linking to \<open>/users/a\<close> and
  \<open>/users/b\<close>.
\<close>

theorem one_entry_per_identifier:
  "map_option HomePage (home_run home_mount [Response True, Json (JArray (map JString xs))])
     = Some (if xs = [] then HomeEmpty
             else HomeGrid (map (\<lambda>slug. Link slug (''/users/'' @ slug) slug) xs))
   \<and> map_option (\<lambda>w. entries (HomePage w))
       (home_run home_mount [Response True, Json (JArray (map JString xs))])
     = Some (map (\<lambda>slug. Link slug (''/users/'' @ slug) slug) xs)
   \<and> map_option HomePage
       (home_run home_mount [Response True, Json (JArray [JString ''a'', JString ''b''])])
     = Some (HomeGrid [Link ''a'' ''/users/a'' ''a'', Link ''b'' ''/users/b'' ''b''])"
  using entry_strings [of xs] entry_strings [of "[''a'', ''b'']"]
  by (simp add: HomePage_defs HomePage_def)

text \<open>
  C6. When the list resource responds with a success status and the empty array, the
  list view shows the message that no member is registered, and the error cell stays
  \<open>null\<close>.
\<close>

theorem empty_list_shows_empty_message:
  "home_run home_mount [Response True, Json (JArray [])]
     = Some \<lparr>userSlugs = JArray [], home_isLoading = False, home_error = None,
         home_pc = ListFinished, home_network = [list_url], home_console = []\<rparr>
   \<and> map_option HomePage (home_run home_mount [Response True, Json (JArray [])]) = Some HomeEmpty"
  by (simp add: HomePage_defs HomePage_def)

lemma home_step_network: "home_step w r = Some w' \<Longrightarrow> home_network w' = home_network w"
  by (cases "home_pc w"; cases r)
     (auto simp: home_step_def home_catch_finally_def split: if_splits)

lemma home_run_network: "home_run w rs = Some w' \<Longrightarrow> home_network w' = home_network w"
proof (induction rs arbitrary: w)
  case Nil
  then show ?case by simp
next
  case (Cons r rs)
  then show ?case by (auto split: option.splits dest: home_step_network)
qed

text \<open>
  C7 (as stated). The body is the well-formed JSON text of an object with the key
  \<open>a\<close> and the value 1, which is not an array of strings: the parsing succeeds, the
  value is stored, the error cell stays \<open>null\<close>, and rendering throws.
\<close>

theorem other_shape_is_not_detected:
  "home_run home_mount [Response True, Json (JObject [(''a'', JNumber ''1'')])]
     = Some \<lparr>userSlugs = JObject [(''a'', JNumber ''1'')], home_isLoading = False,
         home_error = None, home_pc = ListFinished, home_network = [''/user_list.json''],
         home_console = []\<rparr>
   \<and> HomePage \<lparr>userSlugs = JObject [(''a'', JNumber ''1'')], home_isLoading = False,
         home_error = None, home_pc = ListFinished, home_network = [''/user_list.json''],
         home_console = []\<rparr>
     = HomeThrows"
  by (simp add: HomePage_defs HomePage_def list_url_def)

text \<open>
  C7 (as amended). When the list resource responds with a non-success status, or the
  request is rejected, or the parsing of its body is rejected, the list view shows the
  error screen with a message that is not empty (the fixed message, or the message of
  the rejection, or the fallback when that is empty). A body that parses is stored
  whatever its shape, and the error cell stays \<open>null\<close>. Once \<open>fetchUsers\<close> has
  finished no promise is pending, and in every run the request issued at mounting is
  the only request.
\<close>

theorem list_failure_shows_message:
  "home_run home_mount [Response False]
     = Some \<lparr>userSlugs = JArray [], home_isLoading = False, home_error = Some list_load_failed,
         home_pc = ListFinished, home_network = [''/user_list.json''],
         home_console = [ErrorLog list_error_label (Error list_load_failed)]\<rparr>
   \<and> home_run home_mount [Reject e]
     = Some \<lparr>userSlugs = JArray [], home_isLoading = False,
         home_error = Some (or_else (message e) list_unknown_error),
         home_pc = ListFinished, home_network = [''/user_list.json''],
         home_console = [ErrorLog list_error_label e]\<rparr>
   \<and> home_run home_mount [Response True, Reject e]
     = Some \<lparr>userSlugs = JArray [], home_isLoading = False,
         home_error = Some (or_else (message e) list_unknown_error),
         home_pc = ListFinished, home_network = [''/user_list.json''],
         home_console = [ErrorLog list_error_label e]\<rparr>
   \<and> home_run home_mount [Response True, Json v]
     = Some \<lparr>userSlugs = v, home_isLoading = False, home_error = None,
         home_pc = ListFinished, home_network = [''/user_list.json''], home_console = []\<rparr>
   \<and> map_option HomePage (home_run home_mount [Response False]) = Some (HomeError list_load_failed)
   \<and> map_option HomePage (home_run home_mount [Reject e])
     = Some (HomeError (or_else (message e) list_unknown_error))
   \<and> map_option HomePage (home_run home_mount [Response True, Reject e])
     = Some (HomeError (or_else (message e) list_unknown_error))
   \<and> list_load_failed \<noteq> [] \<and> or_else (message e) list_unknown_error \<noteq> []
   \<and> (\<forall>w r. home_pc w = ListFinished \<longrightarrow> home_step w r = None)
   \<and> (\<forall>rs w. home_run home_mount rs = Some w \<longrightarrow> home_network w = [''/user_list.json''])"
proof -
  have a: "\<forall>w r. home_pc w = ListFinished \<longrightarrow> home_step w r = None"
    by (simp add: home_step_def)
  have b: "\<forall>rs w. home_run home_mount rs = Some w \<longrightarrow> home_network w = [''/user_list.json'']"
    using home_run_network [of home_mount] by (auto simp: home_mount_def list_url_def)
  show ?thesis
    using a b by (simp add: HomePage_defs HomePage_def list_url_def)
qed

theorem list_failure_shows_message_witness:
  "map_option HomePage (home_run home_mount [Response True, Reject (Error ''Unexpected token'')])
     = Some (HomeError ''Unexpected token'')
   \<and> map_option HomePage (home_run home_mount [Response True, Reject (Error [])])
     = Some (HomeError list_unknown_error)
   \<and> home_step \<lparr>userSlugs = JArray [], home_isLoading = False,
         home_error = Some list_load_failed,
         home_pc = ListFinished, home_network = [''/user_list.json''],
         home_console = [ErrorLog list_error_label (Error list_load_failed)]\<rparr> (Response True)
     = None
   \<and> map_option home_network (home_run home_mount [Response True, Json (JArray [JString ''a''])])
     = Some [''/user_list.json'']
   \<and> map_option HomePage (home_run home_mount [Response True, Json JNull]) = Some HomeThrows
   \<and> map_option HomePage (home_run home_mount [Response True, Json (JArray [JNumber ''1''])])
     = Some (HomeGrid [Link ''1'' ''/users/1'' ''1''])"
proof -
  have a: "map_option HomePage (home_run home_mount [Response True, Reject (Error ''Unexpected token'')])
     = Some (HomeError ''Unexpected token'')"
    using list_failure_shows_message [of "Error ''Unexpected token''"]
    by (simp add: or_else_def HomePage_defs HomePage_def)
  have b: "map_option HomePage (home_run home_mount [Response True, Reject (Error [])])
     = Some (HomeError list_unknown_error)"
    using list_failure_shows_message [of "Error []"]
    by (simp add: or_else_def HomePage_defs HomePage_def)
  have c: "home_step \<lparr>userSlugs = JArray [], home_isLoading = False,
         home_error = Some list_load_failed,
         home_pc = ListFinished, home_network = [''/user_list.json''],
         home_console = [ErrorLog list_error_label (Error list_load_failed)]\<rparr> (Response True)
     = None"
    using list_failure_shows_message [of "Error []"] by simp
  obtain w where w: "home_run home_mount [Response True, Json (JArray [JString ''a''])] = Some w"
    by (simp add: HomePage_defs)
  with list_failure_shows_message [of "Error []"] have "home_network w = [''/user_list.json'']"
    by blast
  with w have d: "map_option home_network
       (home_run home_mount [Response True, Json (JArray [JString ''a''])])
     = Some [''/user_list.json'']"
    by simp
  have f: "map_option HomePage (home_run home_mount [Response True, Json JNull]) = Some HomeThrows"
    using list_failure_shows_message [of "Error []" JNull]
    by (simp add: HomePage_def)
  have g: "map_option HomePage (home_run home_mount [Response True, Json (JArray [JNumber ''1''])])
     = Some (HomeGrid [Link ''1'' ''/users/1'' ''1''])"
    using list_failure_shows_message [of "Error []" "JArray [JNumber ''1'']"]
    by (simp add: HomePage_def entry_def)
  from a b c d f g show ?thesis by blast
qed

end
